theory Spec2Isabelle
  imports Main
begin

section \<open>Values handled by the Sequencer\<close>

text \<open>
  The values of JavaScript that \<^verbatim>\<open>src/sequence.js\<close> stores, tests or passes on.
  A property value of an argument or result object is a \<open>jsval\<close>; \<open>JSequencer\<close> is
  the reference to the Sequencer that \<^verbatim>\<open>processNextSequenceFunction\<close> puts under the
  key \<^verbatim>\<open>sequence\<close> of every context. An object is the map from its enumerable keys
  to their values (the order of keys only shows in log messages, which are not modelled).
\<close>

datatype jsval = JUndefined | JNull | JBool bool | JNum int | JStr string | JSequencer

type_synonym jsobj = "string \<rightharpoonup> jsval"

text \<open>
  The error argument of a completion and the accumulator \<^verbatim>\<open>pendingErr\<close>:
  \<^verbatim>\<open>undefined\<close>, \<^verbatim>\<open>null\<close> or a message string. \<open>truthy_err\<close> is the test
  \<^verbatim>\<open>if( err )\<close>, \<open>to_string\<close> the conversion that \<^verbatim>\<open>+\<close> applies to an operand
  of a string concatenation.
\<close>

datatype errval = ErrUndefined | ErrNull | ErrStr string

fun truthy_err :: "errval \<Rightarrow> bool" where
  "truthy_err ErrUndefined = False"
| "truthy_err ErrNull = False"
| "truthy_err (ErrStr s) = (s \<noteq> [])"

fun to_string :: "errval \<Rightarrow> string" where
  "to_string ErrUndefined = ''undefined''"
| "to_string ErrNull = ''null''"
| "to_string (ErrStr s) = s"

text \<open>
  What can be raised: the \<^verbatim>\<open>TypeError\<close> of calling or reading through a value that
  is not there, and a string that is thrown, as the constructors do.
\<close>

datatype exn = TypeError | Thrown string

text \<open>
  A task is a function \<^verbatim>\<open>(opts, cb)\<close>. What it does to the Sequencer while it runs is
  the list of calls it makes, in order: \<open>Terminate\<close> is \<^verbatim>\<open>terminate()\<close> called on
  the Sequencer itself, by whatever reference the caller holds (the tests call it on
  the returned object, too); \<open>Complete\<close> is \<^verbatim>\<open>cb(err, data)\<close>, where \<open>data\<close> is
  an object or absent; \<open>Throw\<close> is the task raising, which ends what it does. A task
  that goes through its context, \<^verbatim>\<open>opts.sequence.terminate()\<close>, is a function of the
  value it finds under the key \<^verbatim>\<open>sequence\<close>: it reaches the Sequencer if that value
  is the back-reference, and raises otherwise (see \<open>terminator\<close> below). A task that
  completes later (from a timer, say) makes no call while it runs; its completion is a
  call of \<^verbatim>\<open>handlePartialSequenceComplete\<close> on the state the Sequencer has by then
  (see \<open>later\<close> below).
\<close>

datatype action = Terminate | Complete errval "jsobj option" | Throw exn

type_synonym task = "jsobj \<Rightarrow> action list"

text \<open>An element of the sequence array: a function, or an array of functions.\<close>

datatype stage = StageFunction task | StageArray "task list"

text \<open>
  The value given as terminal callback: falsy, a function (named, so that calls can be
  told apart), or a truthy value that is no function.
\<close>

datatype cbval = CbNull | CbFunction string | CbOther

text \<open>
  The value given as arguments object: falsy, a plain object, or a truthy value that
  \<^verbatim>\<open>isPlainObject\<close> rejects (an array, say), with its enumerable properties.
\<close>

datatype argsval = ArgsNull | ArgsPlain jsobj | ArgsOther jsobj

text \<open>
  The value given as sequence, which is also what the first positional argument can be:
  falsy, an array of stages, a function (with its declared parameter count, which is its
  \<^verbatim>\<open>length\<close>), a plain object with the values under its keys \<^verbatim>\<open>sequence\<close>,
  \<^verbatim>\<open>args\<close> and \<^verbatim>\<open>callback\<close> and no other key, or another truthy value without
  \<^verbatim>\<open>length\<close> and without callable elements (a number, say). Falsy values of any
  kind count as \<^verbatim>\<open>null\<close>: the code only tests them for truth.
\<close>

datatype seqval =
    SeqNull
  | SeqArray "stage list"
  | SeqFunction nat
  | SeqPlainObject seqval argsval cbval
  | SeqOther

fun seq_truthy :: "seqval \<Rightarrow> bool" where
  "seq_truthy SeqNull = False"
| "seq_truthy _ = True"

fun args_truthy :: "argsval \<Rightarrow> bool" where
  "args_truthy ArgsNull = False"
| "args_truthy _ = True"

fun cb_truthy :: "cbval \<Rightarrow> bool" where
  "cb_truthy CbNull = False"
| "cb_truthy _ = True"

fun isArray :: "seqval \<Rightarrow> bool" where
  "isArray (SeqArray _) = True"
| "isArray _ = False"

text \<open>
  Modelled from the spec: \<^verbatim>\<open>Function.isFunction\<close> is called by
  \<^verbatim>\<open>sequence.js\<close> but defined in none of the source files at hand; the
  specification and the error texts ask for a callable value, so the test holds exactly
  of functions.
\<close>

fun isFunction_seq :: "seqval \<Rightarrow> bool" where
  "isFunction_seq (SeqFunction _) = True"
| "isFunction_seq _ = False"

fun isFunction_cb :: "cbval \<Rightarrow> bool" where
  "isFunction_cb (CbFunction _) = True"
| "isFunction_cb _ = False"

text \<open>\<^verbatim>\<open>isPlainObject\<close> of the package is-plain-object.\<close>

fun isPlainObject_seq :: "seqval \<Rightarrow> bool" where
  "isPlainObject_seq (SeqPlainObject _ _ _) = True"
| "isPlainObject_seq _ = False"

fun isPlainObject_args :: "argsval \<Rightarrow> bool" where
  "isPlainObject_args (ArgsPlain _) = True"
| "isPlainObject_args _ = False"

text \<open>Reading the keys of the configuration object; a missing key reads as undefined.\<close>

fun get_sequence :: "seqval \<Rightarrow> seqval" where
  "get_sequence (SeqPlainObject sq _ _) = sq"
| "get_sequence _ = SeqNull"

fun get_args :: "seqval \<Rightarrow> argsval" where
  "get_args (SeqPlainObject _ ar _) = ar"
| "get_args _ = ArgsNull"

fun get_callback :: "seqval \<Rightarrow> cbval" where
  "get_callback (SeqPlainObject _ _ cb) = cb"
| "get_callback _ = CbNull"

text \<open>The enumerable properties that \<^verbatim>\<open>for( prop in this.args )\<close> copies.\<close>

fun args_props :: "argsval \<Rightarrow> jsobj" where
  "args_props ArgsNull = Map.empty"
| "args_props (ArgsPlain m) = m"
| "args_props (ArgsOther m) = m"

text \<open>
  \<^verbatim>\<open>this.sequence[i]\<close> as something that can be called: the stage at \<open>i\<close> of an
  array, nothing otherwise. \<^verbatim>\<open>this.sequence.length\<close> as a number: defined for an array
  and for a function.
\<close>

fun seq_elem :: "seqval \<Rightarrow> nat \<Rightarrow> stage option" where
  "seq_elem (SeqArray xs) i = (if i < length xs then Some (xs ! i) else None)"
| "seq_elem _ i = None"

fun seq_length :: "seqval \<Rightarrow> nat option" where
  "seq_length (SeqArray xs) = Some (length xs)"
| "seq_length (SeqFunction n) = Some n"
| "seq_length _ = None"

section \<open>The Sequencer object\<close>

text \<open>
  What the Sequencer does to the outside: it invokes a task, found in the stage with a
  given index, on a context, and it invokes the terminal callback on an error and a
  data argument (\<open>None\<close> is \<^verbatim>\<open>null\<close>).
\<close>

datatype event = Invoked nat task jsobj | Terminal string errval "jsobj option"

text \<open>
  The fields of the class, and \<open>trace\<close>, the calls made so far. \<^verbatim>\<open>pendingErr\<close> is
  assigned nowhere before the first error arrives, so it starts as \<^verbatim>\<open>undefined\<close>.
\<close>

record sequencer =
  sequence :: seqval
  callback :: cbval
  args :: argsval
  startupErrorText :: "string option"
  currentSequenceIdx :: nat
  pendingData :: jsobj
  concurrentFunctions :: nat
  pendingErr :: errval
  isConstructing :: bool
  trace :: "event list"

text \<open>
  The result of a method: it returns, or it raises, and a raise carries the state the
  object is left in.
\<close>

type_synonym 'a result = "(exn \<times> sequencer) + 'a"

definition text_truthy :: "string option \<Rightarrow> bool" where
  "text_truthy t = (case t of None \<Rightarrow> False | Some s \<Rightarrow> s \<noteq> [])"

definition invalidCallback :: string where
  "invalidCallback = ''Invalid callback function passed to Sequencer.construct. A function or null must be passed.''"

definition invalidSequence :: string where
  "invalidSequence = ''Invalid sequence passed to Sequencer.construct. An array of functions (and arrays) or a single function must be passed.''"

definition invalidArgs :: string where
  "invalidArgs = ''Invalid function args passed to Sequencer.construct. An object<k, v> containing arguments must be passed.''"

definition tooManyArguments :: string where
  "tooManyArguments = ''No more than 3 arguments can be passed to Sequencer.construct.''"

definition errNullArguments :: string where
  "errNullArguments = ''arguments passed to Sequencer.constructor were null. Nothing to run. Returning''"

section \<open>Construction\<close>

text \<open>
  The argument list of \<^verbatim>\<open>construct\<close>: how many values were passed and the first
  three of them (undefined, hence falsy, from \<open>arg_count\<close> on), each seen as what its
  position stands for.
\<close>

record arglist =
  arg_count :: nat
  arg0 :: seqval
  arg1 :: argsval
  arg2 :: cbval

text \<open>
  \<^verbatim>\<open>objConstructor(argObj)\<close>. The three fields are stored first, whatever they are;
  a truthy callback that is no function raises; then the sequence and the arguments
  object are checked in this order.
\<close>

definition objConstructor :: "seqval \<Rightarrow> sequencer \<Rightarrow> sequencer result" where
  "objConstructor argObj s =
    (let s1 = s\<lparr>sequence := (if seq_truthy (get_sequence argObj) then get_sequence argObj else SeqNull),
                args := (if args_truthy (get_args argObj) then get_args argObj else ArgsNull),
                callback := (if cb_truthy (get_callback argObj) then get_callback argObj else CbNull)\<rparr>
     in if cb_truthy (get_callback argObj) \<and> \<not> isFunction_cb (get_callback argObj)
        then Inl (Thrown invalidCallback, s1)
        else
          (let s2 = (if cb_truthy (get_callback argObj)
                     then s1\<lparr>callback := get_callback argObj\<rparr> else s1)
           in if text_truthy (startupErrorText s2) then Inr s2
              else if isArray (get_sequence argObj) \<or> isFunction_seq (get_sequence argObj)
              then
                (let s3 = s2\<lparr>sequence := get_sequence argObj\<rparr>
                 in if args_truthy (get_args argObj)
                    then (if isPlainObject_args (get_args argObj)
                          then Inr (s3\<lparr>args := get_args argObj\<rparr>)
                          else Inr (s3\<lparr>startupErrorText := Some invalidArgs\<rparr>))
                    else Inr s3)
              else Inr (s2\<lparr>startupErrorText := Some invalidSequence\<rparr>)))"

text \<open>
  Inside \<^verbatim>\<open>arrConstructor(argArray)\<close> the name \<^verbatim>\<open>arguments\<close> is the method's own
  argument list, which holds the single value \<^verbatim>\<open>argArray\<close>: the method is called as
  \<^verbatim>\<open>this.arrConstructor(arguments)\<close>. So \<^verbatim>\<open>arguments[1]\<close> and \<^verbatim>\<open>arguments[2]\<close>
  read as undefined there, whatever the caller passed in second and third position.
\<close>

definition arr_arguments_1 :: "arglist \<Rightarrow> argsval" where
  "arr_arguments_1 argArray = ArgsNull"

definition arr_arguments_2 :: "arglist \<Rightarrow> cbval" where
  "arr_arguments_2 argArray = CbNull"

definition arrConstructor :: "arglist \<Rightarrow> sequencer \<Rightarrow> sequencer result" where
  "arrConstructor argArray s =
    (let s1 = (if \<not> text_truthy (startupErrorText s) \<and> arg_count argArray > 3
               then s\<lparr>startupErrorText := Some tooManyArguments\<rparr> else s)
     in if cb_truthy (arr_arguments_2 argArray) \<and> \<not> isFunction_cb (arr_arguments_2 argArray)
        then Inl (Thrown invalidCallback, s1)
        else
          (let s2 = (if cb_truthy (arr_arguments_2 argArray)
                     then s1\<lparr>callback := arr_arguments_2 argArray\<rparr> else s1)
           in if text_truthy (startupErrorText s2) then Inr s2
              else if isArray (arg0 argArray) \<or> isFunction_seq (arg0 argArray)
              then
                (let s3 = s2\<lparr>sequence := arg0 argArray\<rparr>
                 in if args_truthy (arr_arguments_1 argArray)
                    then (if isPlainObject_args (arr_arguments_1 argArray)
                          then Inr (s3\<lparr>args := arr_arguments_1 argArray\<rparr>)
                          else Inr (s3\<lparr>startupErrorText := Some invalidArgs\<rparr>))
                    else Inr s3)
              else Inr (s2\<lparr>startupErrorText := Some invalidSequence\<rparr>)))"

text \<open>
  Calling the terminal callback: \<^verbatim>\<open>this.callback(err, data)\<close>. The call is recorded;
  calling a value that is no function raises.
\<close>

definition call_callback :: "errval \<Rightarrow> jsobj option \<Rightarrow> sequencer \<Rightarrow> sequencer result" where
  "call_callback err data s =
    (case callback s of
       CbFunction f \<Rightarrow> Inr (s\<lparr>trace := trace s @ [Terminal f err data]\<rparr>)
     | _ \<Rightarrow> Inl (TypeError, s))"

text \<open>
  \<^verbatim>\<open>construct()\<close>: the fields are reset (all but \<^verbatim>\<open>pendingErr\<close>), an empty
  argument list is an error unless the object is being created, the argument list goes
  to one of the two constructors, and a start-up error is reported to the callback, if
  one was stored.
\<close>

definition construct :: "arglist \<Rightarrow> sequencer \<Rightarrow> sequencer result" where
  "construct arguments s =
    (let s1 = s\<lparr>sequence := SeqArray [], callback := CbNull, args := ArgsNull,
                startupErrorText := None, currentSequenceIdx := 0, pendingData := Map.empty,
                concurrentFunctions := 0\<rparr>
     in if arg_count arguments = 0 \<and> isConstructing s1 then Inr s1
        else
          (let s2 = (if arg_count arguments = 0
                     then s1\<lparr>startupErrorText := Some errNullArguments\<rparr> else s1)
           in case (if \<not> isFunction_seq (arg0 arguments) \<and> arg_count arguments = 1
                       \<and> isPlainObject_seq (arg0 arguments)
                    then objConstructor (arg0 arguments) s2
                    else arrConstructor arguments s2) of
                Inl x \<Rightarrow> Inl x
              | Inr s3 \<Rightarrow>
                  (case startupErrorText s3 of
                     None \<Rightarrow> Inr s3
                   | Some txt \<Rightarrow>
                       if txt \<noteq> [] \<and> cb_truthy (callback s3)
                       then call_callback (ErrStr txt) None s3
                       else Inr s3)))"

text \<open>The object before its constructor has run: no field is assigned.\<close>

definition blank :: sequencer where
  "blank = \<lparr>sequence = SeqNull, callback = CbNull, args = ArgsNull, startupErrorText = None,
            currentSequenceIdx = 0, pendingData = Map.empty, concurrentFunctions = 0,
            pendingErr = ErrUndefined, isConstructing = False, trace = []\<rparr>"

text \<open>\<^verbatim>\<open>new Sequencer(...)\<close>, the class constructor.\<close>

definition new_Sequencer :: "arglist \<Rightarrow> sequencer result" where
  "new_Sequencer arguments =
    (case construct arguments (blank\<lparr>isConstructing := True\<rparr>) of
       Inl x \<Rightarrow> Inl x
     | Inr s \<Rightarrow> Inr (s\<lparr>isConstructing := False\<rparr>))"

definition no_arguments :: arglist where
  "no_arguments = \<lparr>arg_count = 0, arg0 = SeqNull, arg1 = ArgsNull, arg2 = CbNull\<rparr>"

section \<open>Running the sequence\<close>

text \<open>
  The methods call the tasks and the tasks call the methods back while they run, so the
  calls nest. The nesting is kept as a stack of frames, innermost first: \<open>Body as\<close> is
  a task that still has the calls \<open>as\<close> to make; \<open>Calls k opts ts\<close> is the rest of
  the dispatch of stage \<open>k\<close> in \<^verbatim>\<open>processNextSequenceFunction\<close>, which still has to
  invoke the tasks \<open>ts\<close> on the context \<open>opts\<close>. A method returns the frames of
  the calls it makes next, together with the state.
\<close>

datatype frame = Body "action list" | Calls nat jsobj "task list"

text \<open>
  \<^verbatim>\<open>processNextSequenceFunction()\<close>: the context is the back-reference, overlaid with
  the arguments object, overlaid with \<^verbatim>\<open>pendingData\<close>, which is then emptied. An array
  stage sets the counter to its length and invokes every element; a function stage is
  invoked without touching the counter.
\<close>

definition processNextSequenceFunction :: "sequencer \<Rightarrow> (frame list \<times> sequencer) result" where
  "processNextSequenceFunction s =
    (let opts0 = [''sequence'' \<mapsto> JSequencer];
         opts1 = (if args_truthy (args s) then opts0 ++ args_props (args s) else opts0);
         opts = opts1 ++ pendingData s;
         s1 = s\<lparr>pendingData := Map.empty\<rparr>
     in case seq_elem (sequence s1) (currentSequenceIdx s1) of
          None \<Rightarrow> Inl (TypeError, s1)
        | Some (StageArray ts) \<Rightarrow>
            Inr ([Calls (currentSequenceIdx s1) opts ts], s1\<lparr>concurrentFunctions := length ts\<rparr>)
        | Some (StageFunction t) \<Rightarrow>
            Inr ([Calls (currentSequenceIdx s1) opts [t]], s1))"

text \<open>
  \<^verbatim>\<open>handleSequenceFunctionComplete()\<close>: on the last index, or past it, the terminal
  callback is called if there is one; otherwise the index moves on and the next stage is
  dispatched. Reading \<^verbatim>\<open>length\<close> of a sequence that has none is modelled as a raise
  (JavaScript raises at once for \<^verbatim>\<open>null\<close>, and at the next dispatch otherwise).
\<close>

definition handleSequenceFunctionComplete :: "sequencer \<Rightarrow> (frame list \<times> sequencer) result" where
  "handleSequenceFunctionComplete s =
    (case seq_length (sequence s) of
       None \<Rightarrow> Inl (TypeError, s)
     | Some n \<Rightarrow>
         if n \<le> currentSequenceIdx s + 1
         then (if cb_truthy (callback s)
               then (case call_callback (pendingErr s) (Some (pendingData s)) s of
                       Inl x \<Rightarrow> Inl x
                     | Inr s' \<Rightarrow> Inr ([], s'))
               else Inr ([], s))
         else processNextSequenceFunction (s\<lparr>currentSequenceIdx := currentSequenceIdx s + 1\<rparr>))"

text \<open>
  The assignment \<^verbatim>\<open>this.pendingErr = this.pendingErr + " " + err || err\<close>: the sum
  binds tighter than \<^verbatim>\<open>||\<close>, so the right operand is used only if the concatenation
  is the empty string.
\<close>

definition accumulate_err :: "errval \<Rightarrow> errval \<Rightarrow> errval" where
  "accumulate_err pending err =
    (let joined = to_string pending @ '' '' @ to_string err
     in if joined \<noteq> [] then ErrStr joined else err)"

text \<open>
  \<^verbatim>\<open>handlePartialSequenceComplete(err, data)\<close>, the function every task gets as its
  \<^verbatim>\<open>cb\<close>: the counter goes down unless it is zero, the data is written over
  \<^verbatim>\<open>pendingData\<close> key by key, a truthy error is accumulated, and on a zero counter
  the stage is complete.
\<close>

definition handlePartialSequenceComplete ::
    "errval \<Rightarrow> jsobj option \<Rightarrow> sequencer \<Rightarrow> (frame list \<times> sequencer) result" where
  "handlePartialSequenceComplete err data s =
    (let s1 = (if concurrentFunctions s \<noteq> 0
               then s\<lparr>concurrentFunctions := concurrentFunctions s - 1\<rparr> else s);
         s2 = (case data of
                 None \<Rightarrow> s1
               | Some d \<Rightarrow> s1\<lparr>pendingData := pendingData s1 ++ d\<rparr>);
         s3 = (if truthy_err err
               then s2\<lparr>pendingErr := accumulate_err (pendingErr s2) err\<rparr> else s2)
     in if concurrentFunctions s3 = 0 then handleSequenceFunctionComplete s3
        else Inr ([], s3))"

text \<open>
  \<^verbatim>\<open>terminate()\<close>: the index is set to the length of the sequence. For a sequence
  without \<^verbatim>\<open>length\<close> the model raises, as \<^verbatim>\<open>handleSequenceFunctionComplete\<close>
  does (JavaScript raises at once for \<^verbatim>\<open>null\<close>; otherwise it stores
  \<^verbatim>\<open>undefined\<close> and raises at the next dispatch).
\<close>

definition terminate :: "sequencer \<Rightarrow> sequencer result" where
  "terminate s =
    (case seq_length (sequence s) of
       None \<Rightarrow> Inl (TypeError, s)
     | Some n \<Rightarrow> Inr (s\<lparr>currentSequenceIdx := n\<rparr>))"

text \<open>
  One step of the innermost frame: the next call of a task body, or the next
  invocation of the dispatch loop, which is recorded and opens the body of the task.
  Nothing in \<^verbatim>\<open>sequence.js\<close> catches what a task raises: it ends the run.
\<close>

fun step :: "frame \<Rightarrow> sequencer \<Rightarrow> (frame list \<times> sequencer) result" where
  "step (Body []) s = Inr ([], s)"
| "step (Body (Terminate # as)) s =
    (case terminate s of
       Inl x \<Rightarrow> Inl x
     | Inr s' \<Rightarrow> Inr ([Body as], s'))"
| "step (Body (Complete err data # as)) s =
    (case handlePartialSequenceComplete err data s of
       Inl x \<Rightarrow> Inl x
     | Inr (fs, s') \<Rightarrow> Inr (fs @ [Body as], s'))"
| "step (Body (Throw x # as)) s = Inl (x, s)"
| "step (Calls k opts []) s = Inr ([], s)"
| "step (Calls k opts (t # ts)) s =
    Inr ([Body (t opts), Calls k opts ts], s\<lparr>trace := trace s @ [Invoked k t opts]\<rparr>)"

text \<open>
  The measure of what is left to do: the stages not yet reached, then the calls that
  the frames still hold.
\<close>

definition stages_left :: "sequencer \<Rightarrow> nat" where
  "stages_left s =
    (case seq_length (sequence s) of None \<Rightarrow> 0 | Some n \<Rightarrow> n - currentSequenceIdx s)"

fun frame_size :: "frame \<Rightarrow> nat" where
  "frame_size (Body as) = Suc (length as)"
| "frame_size (Calls k opts ts) = Suc (sum_list (map (\<lambda>t. Suc (Suc (length (t opts)))) ts))"

definition stack_size :: "frame list \<Rightarrow> nat" where
  "stack_size fs = sum_list (map frame_size fs)"

text \<open>
  The state after the three updates of \<^verbatim>\<open>handlePartialSequenceComplete\<close>, before
  its test of the counter.
\<close>

definition completion_recorded :: "errval \<Rightarrow> jsobj option \<Rightarrow> sequencer \<Rightarrow> sequencer" where
  "completion_recorded err data s =
    s\<lparr>concurrentFunctions := concurrentFunctions s - 1,
      pendingData := (case data of None \<Rightarrow> pendingData s | Some d \<Rightarrow> pendingData s ++ d),
      pendingErr := (if truthy_err err then accumulate_err (pendingErr s) err else pendingErr s)\<rparr>"

lemma handlePartial_eq:
  "handlePartialSequenceComplete err data s =
    (if concurrentFunctions (completion_recorded err data s) = 0
     then handleSequenceFunctionComplete (completion_recorded err data s)
     else Inr ([], completion_recorded err data s))"
proof -
  have "(let s1 = (if concurrentFunctions s \<noteq> 0
               then s\<lparr>concurrentFunctions := concurrentFunctions s - 1\<rparr> else s);
         s2 = (case data of
                 None \<Rightarrow> s1
               | Some d \<Rightarrow> s1\<lparr>pendingData := pendingData s1 ++ d\<rparr>)
         in (if truthy_err err
               then s2\<lparr>pendingErr := accumulate_err (pendingErr s2) err\<rparr> else s2))
        = completion_recorded err data s"
    by (cases data) (auto simp: completion_recorded_def Let_def)
  then show ?thesis
    unfolding handlePartialSequenceComplete_def Let_def by simp
qed

lemma completion_recorded_fields:
  "sequence (completion_recorded err data s) = sequence s"
  "currentSequenceIdx (completion_recorded err data s) = currentSequenceIdx s"
  "callback (completion_recorded err data s) = callback s"
  "args (completion_recorded err data s) = args s"
  "trace (completion_recorded err data s) = trace s"
  "concurrentFunctions (completion_recorded err data s) = concurrentFunctions s - 1"
  by (simp_all add: completion_recorded_def)

lemma processNext_fields:
  assumes "processNextSequenceFunction s = Inr (fs, s')"
  shows "sequence s' = sequence s \<and> currentSequenceIdx s' = currentSequenceIdx s"
  using assms
  by (auto simp: processNextSequenceFunction_def Let_def split: option.splits stage.splits)

lemma stages_left_same:
  "sequence s' = sequence s \<Longrightarrow> currentSequenceIdx s' = currentSequenceIdx s
    \<Longrightarrow> stages_left s' = stages_left s"
  by (simp add: stages_left_def split: option.splits)

lemma step_decreases:
  assumes "step f s = Inr (new, s')"
  shows "stages_left s' < stages_left s
       \<or> (stages_left s' \<le> stages_left s \<and> stack_size new < frame_size f)"
proof (cases f)
  case (Calls k opts ts)
  with assms show ?thesis
    by (cases ts) (auto simp: stack_size_def stages_left_def split: option.splits)
next
  case (Body as)
  show ?thesis
  proof (cases as)
    case Nil
    with Body assms show ?thesis by (auto simp: stack_size_def)
  next
    case (Cons a rest)
    show ?thesis
    proof (cases a)
      case Terminate
      with Body Cons assms show ?thesis
        by (auto simp: stack_size_def stages_left_def terminate_def split: option.splits)
    next
      case (Complete err data)
      with Body Cons assms obtain fs where
        h: "handlePartialSequenceComplete err data s = Inr (fs, s')" and new: "new = fs @ [Body rest]"
        by (auto split: sum.splits)
      define s3 where "s3 = completion_recorded err data s"
      have s3: "sequence s3 = sequence s" "currentSequenceIdx s3 = currentSequenceIdx s"
        by (simp_all add: s3_def completion_recorded_fields)
      have h': "(if concurrentFunctions s3 = 0 then handleSequenceFunctionComplete s3
                 else Inr ([], s3)) = Inr (fs, s')"
        using h unfolding handlePartial_eq s3_def .
      show ?thesis
      proof (cases "concurrentFunctions s3 = 0")
        case False
        with h' have "fs = []" "s' = s3" by auto
        moreover from this s3 have "stages_left s' = stages_left s"
          by (simp add: stages_left_same[of s3 s])
        ultimately show ?thesis
          using new Body Cons by (simp add: stack_size_def)
      next
        case True
        with h' have hc: "handleSequenceFunctionComplete s3 = Inr (fs, s')" by simp
        then obtain n where n: "seq_length (sequence s3) = Some n"
          by (auto simp: handleSequenceFunctionComplete_def split: option.splits)
        show ?thesis
        proof (cases "n \<le> currentSequenceIdx s3 + 1")
          case True
          with hc n have "fs = []" "sequence s' = sequence s3"
              "currentSequenceIdx s' = currentSequenceIdx s3"
            by (auto simp: handleSequenceFunctionComplete_def call_callback_def
                split: if_splits cbval.splits sum.splits)
          then have "fs = []" "stages_left s' = stages_left s"
            using s3 by (simp_all add: stages_left_same[of s' s])
          then show ?thesis
            using new Body Cons by (simp add: stack_size_def)
        next
          case False
          with hc n have "processNextSequenceFunction
              (s3\<lparr>currentSequenceIdx := currentSequenceIdx s3 + 1\<rparr>) = Inr (fs, s')"
            by (simp add: handleSequenceFunctionComplete_def)
          from processNext_fields[OF this] have
            "sequence s' = sequence s3" "currentSequenceIdx s' = currentSequenceIdx s3 + 1"
            by auto
          with False n s3 show ?thesis
            by (auto simp: stages_left_def)
        qed
      qed
    next
      case (Throw x)
      with Body Cons assms show ?thesis by simp
    qed
  qed
qed

text \<open>
  Running a stack of frames to its end. A raise ends the run with the state it left.
\<close>

function exec :: "frame list \<Rightarrow> sequencer \<Rightarrow> sequencer result" where
  "exec [] s = Inr s"
| "exec (f # fs) s =
    (case step f s of
       Inl x \<Rightarrow> Inl x
     | Inr (new, s') \<Rightarrow> exec (new @ fs) s')"
  by pat_completeness auto
termination
proof (relation "measures [\<lambda>(fs, s). stages_left s, \<lambda>(fs, s). stack_size fs]")
  show "wf (measures [\<lambda>(fs, s). stages_left s, \<lambda>(fs, s). stack_size fs])"
    by simp
next
  fix f fs s x new s'
  assume "step f s = Inr x" and "(new, s') = x"
  then have "step f s = Inr (new, s')" by simp
  from step_decreases[OF this]
  show "((new @ fs, s'), f # fs, s)
      \<in> measures [\<lambda>(fs, s). stages_left s, \<lambda>(fs, s). stack_size fs]"
    by (auto simp: stack_size_def)
qed

text \<open>\<^verbatim>\<open>go()\<close> dispatches the stage at the current index and runs what follows.\<close>

definition go :: "sequencer \<Rightarrow> sequencer result" where
  "go s =
    (case processNextSequenceFunction s of
       Inl x \<Rightarrow> Inl x
     | Inr (fs, s') \<Rightarrow> exec fs s')"

text \<open>
  The exported function \<^verbatim>\<open>sequence(...)\<close>: an object is created with no arguments,
  configured by \<^verbatim>\<open>construct\<close> with the arguments of the call, and started.
\<close>

definition sequence_fn :: "arglist \<Rightarrow> sequencer result" where
  "sequence_fn arguments =
    (case new_Sequencer no_arguments of
       Inl x \<Rightarrow> Inl x
     | Inr sequencer \<Rightarrow>
         (case construct arguments sequencer of
            Inl x \<Rightarrow> Inl x
          | Inr sequencer' \<Rightarrow> go sequencer'))"

section \<open>Calls and observations\<close>

text \<open>
  The two ways of calling: one configuration object, or up to three positional values.
\<close>

definition config_arguments :: "seqval \<Rightarrow> argsval \<Rightarrow> cbval \<Rightarrow> arglist" where
  "config_arguments sq a cb =
     \<lparr>arg_count = 1, arg0 = SeqPlainObject sq a cb, arg1 = ArgsNull, arg2 = CbNull\<rparr>"

definition positional_arguments :: "seqval \<Rightarrow> argsval \<Rightarrow> cbval \<Rightarrow> arglist" where
  "positional_arguments sq a cb = \<lparr>arg_count = 3, arg0 = sq, arg1 = a, arg2 = cb\<rparr>"

text \<open>
  What a call has done to the outside, whether it returned or raised, and whether it
  returned.
\<close>

definition observed :: "sequencer result \<Rightarrow> event list" where
  "observed r = (case r of Inl (e, s) \<Rightarrow> trace s | Inr s \<Rightarrow> trace s)"

definition returns :: "sequencer result \<Rightarrow> bool" where
  "returns r = (case r of Inl x \<Rightarrow> False | Inr s \<Rightarrow> True)"

definition raised :: "sequencer result \<Rightarrow> exn option" where
  "raised r = (case r of Inl (e, s) \<Rightarrow> Some e | Inr s \<Rightarrow> None)"


fun invocations :: "event list \<Rightarrow> (nat \<times> task \<times> jsobj) list" where
  "invocations [] = []"
| "invocations (Invoked k t opts # es) = (k, t, opts) # invocations es"
| "invocations (Terminal f err data # es) = invocations es"

section \<open>Tasks that complete once while they run\<close>

text \<open>
  The task contract asks every task to call its \<^verbatim>\<open>cb\<close> exactly once. For tasks that
  do so before they return, and return, the run of a sequence has a closed form,
  \<open>expected\<close> below, which \<open>run_stages\<close> proves equal to what \<open>exec\<close> computes.
  \<open>completions\<close> are the completions written in a body and \<open>raises\<close> tells whether
  the body raises; what follows is about bodies that do not.
\<close>

fun completions :: "action list \<Rightarrow> (errval \<times> jsobj option) list" where
  "completions [] = []"
| "completions (Terminate # as) = completions as"
| "completions (Complete err data # as) = (err, data) # completions as"
| "completions (Throw x # as) = completions as"







text \<open>A task body up to its first completion, and what it does after it.\<close>

fun upto_completion :: "action list \<Rightarrow> action list" where
  "upto_completion [] = []"
| "upto_completion (Terminate # as) = Terminate # upto_completion as"
| "upto_completion (Complete err data # as) = [Complete err data]"
| "upto_completion (Throw x # as) = Throw x # upto_completion as"


text \<open>
  The calls that the tasks of a stage make up to the completion of the last task, which
  is the one that completes the stage.
\<close>

definition stage_actions :: "jsobj \<Rightarrow> task list \<Rightarrow> action list" where
  "stage_actions opts ts =
     concat (map (\<lambda>t. t opts) (butlast ts)) @ upto_completion (last ts opts)"









section \<open>The scenarios of the specification\<close>

text \<open>
  Three tasks that succeed at once, each with one result key, as \<^verbatim>\<open>func1\<close>,
  \<^verbatim>\<open>func2\<close> and \<^verbatim>\<open>func3\<close> of \<^verbatim>\<open>test.js\<close> do.
\<close>

definition resA :: jsobj where "resA = [''taskA'' \<mapsto> JNum 1]"

definition resB :: jsobj where "resB = [''taskB'' \<mapsto> JNum 2]"

definition resC :: jsobj where "resC = [''taskC'' \<mapsto> JNum 3]"

definition succeed :: "jsobj \<Rightarrow> task" where
  "succeed d opts = [Complete ErrNull (Some d)]"

definition taskA :: task where "taskA = succeed resA"

definition taskB :: task where "taskB = succeed resB"

definition taskC :: task where "taskC = succeed resC"

text \<open>
  The last task of the test \<^verbatim>\<open>Async Component\<close>: it asserts the three keys of the
  group before it and then completes; a failed assertion leaves it without completion.
\<close>

definition done_result :: jsobj where "done_result = [''done'' \<mapsto> JBool True]"

definition mergeTask :: task where
  "mergeTask opts =
     (if opts ''taskA'' = Some (JNum 1) \<and> opts ''taskB'' = Some (JNum 2)
         \<and> opts ''taskC'' = Some (JNum 3)
      then [Complete ErrNull (Some done_result)] else [])"

definition group_context :: jsobj where
  "group_context = [''sequence'' \<mapsto> JSequencer]"

definition merge_context :: jsobj where
  "merge_context = [''sequence'' \<mapsto> JSequencer, ''taskA'' \<mapsto> JNum 1,
      ''taskB'' \<mapsto> JNum 2, ''taskC'' \<mapsto> JNum 3]"

definition c6_arguments :: arglist where
  "c6_arguments = config_arguments
     (SeqArray [StageArray [taskA, taskB, taskC], StageFunction mergeTask])
     ArgsNull (CbFunction ''onComplete'')"

text \<open>The state of an object that \<^verbatim>\<open>construct\<close> has accepted, before \<^verbatim>\<open>go\<close>.\<close>

definition ready :: "seqval \<Rightarrow> argsval \<Rightarrow> cbval \<Rightarrow> sequencer" where
  "ready sq a cb =
     \<lparr>sequence = sq, callback = cb, args = a, startupErrorText = None,
      currentSequenceIdx = 0, pendingData = Map.empty, concurrentFunctions = 0,
      pendingErr = ErrUndefined, isConstructing = False, trace = []\<rparr>"

text \<open>
  One stage, and values for the other two parts of a configuration: a plain arguments
  object \<^verbatim>\<open>{x: 1}\<close>, and the array \<^verbatim>\<open>[1, 2]\<close>, which is truthy and no plain
  object, with the contexts they give.
\<close>

definition one_stage :: seqval where
  "one_stage = SeqArray [StageFunction taskA]"

definition args_x :: argsval where
  "args_x = ArgsPlain [''x'' \<mapsto> JNum 1]"

definition context_x :: jsobj where
  "context_x = [''sequence'' \<mapsto> JSequencer, ''x'' \<mapsto> JNum 1]"

definition args_array :: argsval where
  "args_array = ArgsOther [''0'' \<mapsto> JNum 1, ''1'' \<mapsto> JNum 2]"

definition context_array :: jsobj where
  "context_array = [''sequence'' \<mapsto> JSequencer, ''0'' \<mapsto> JNum 1, ''1'' \<mapsto> JNum 2]"


definition back_referenced :: "jsobj \<Rightarrow> bool" where
  "back_referenced opts = (opts ''sequence'' = Some JSequencer)"


definition terminator :: task where
  "terminator opts =
     (if back_referenced opts then [Terminate, Complete ErrNull (Some resB)]
      else [Throw TypeError])"




text \<open>
  An arguments object that puts a number under the key \<^verbatim>\<open>sequence\<close>, and the context
  it gives.
\<close>

definition args_sequence :: argsval where
  "args_sequence = ArgsPlain [''sequence'' \<mapsto> JNum 5]"

definition context_sequence :: jsobj where
  "context_sequence = [''sequence'' \<mapsto> JNum 5]"









text \<open>
  Two tasks that report an error, the second without data, and the scenarios built
  from them and from \<^verbatim>\<open>terminator\<close>.
\<close>

definition failA :: task where
  "failA opts = [Complete (ErrStr ''a failed'') (Some resA)]"

definition failB :: task where
  "failB opts = [Complete (ErrStr ''b failed'') None]"

definition c7_stages :: "stage list" where
  "c7_stages = [StageArray [failA, failB], StageFunction taskC]"

definition context_A :: jsobj where
  "context_A = [''sequence'' \<mapsto> JSequencer, ''taskA'' \<mapsto> JNum 1]"



definition one_failing :: seqval where
  "one_failing = SeqArray [StageFunction failA]"

text \<open>
  A completion that arrives later: a callback of the host (a timer, say) fires after the
  previous call has returned and makes its calls on the state that call left. A task
  that completes this way makes no call while it runs, as \<^verbatim>\<open>funcWait\<close> of the tests.
\<close>

definition later :: "action list \<Rightarrow> sequencer result \<Rightarrow> sequencer result" where
  "later as r = (case r of Inl x \<Rightarrow> Inl x | Inr s \<Rightarrow> exec [Body as] s)"


definition waiter :: task where
  "waiter opts = []"

definition res_wait :: jsobj where
  "res_wait = [''funcWait'' \<mapsto> JNum 4]"



text \<open>
  The discipline of the task contract for such callbacks: \<open>outstanding\<close> counts the
  invoked tasks that did not complete while they ran; a list of later callbacks is
  \<open>in_time\<close> if each makes at most one completion, and makes it only while fewer
  completions have arrived than tasks are outstanding, and none raises.
  \<open>at_most_once\<close> is the same discipline for what a task does while it runs.
\<close>

definition outstanding :: "event list \<Rightarrow> nat" where
  "outstanding tr = length (filter (\<lambda>(j, t, opts). completions (t opts) = []) (invocations tr))"





definition c4_waiting :: arglist where
  "c4_waiting = config_arguments
     (SeqArray [StageFunction taskA, StageFunction waiter, StageFunction terminator,
                StageFunction failA])
     ArgsNull (CbFunction ''onComplete'')"

definition context_wait :: jsobj where
  "context_wait = [''sequence'' \<mapsto> JSequencer, ''funcWait'' \<mapsto> JNum 4]"







section \<open>Properties of the run\<close>








declare exec.simps [simp del]
































lemmas run_defs = sequence_fn_def new_Sequencer_def construct_def no_arguments_def blank_def
  config_arguments_def positional_arguments_def
  objConstructor_def arrConstructor_def arr_arguments_1_def arr_arguments_2_def
  go_def processNextSequenceFunction_def handlePartialSequenceComplete_def
  handleSequenceFunctionComplete_def call_callback_def terminate_def accumulate_err_def
  text_truthy_def Let_def exec.simps observed_def returns_def raised_def

lemma texts_nonempty:
  "invalidCallback \<noteq> []" "invalidSequence \<noteq> []" "invalidArgs \<noteq> []"
  "tooManyArguments \<noteq> []" "errNullArguments \<noteq> []"
  by (simp_all add: invalidCallback_def invalidSequence_def invalidArgs_def
      tooManyArguments_def errNullArguments_def)





lemma stage_actions_succeed [simp]:
  "stage_actions opts [succeed d] = [Complete ErrNull (Some d)]"
  by (simp add: stage_actions_def succeed_def)












lemmas later_defs = later_def outstanding_def





















lemma terminator_without_reference:
  "raised (sequence_fn (config_arguments (SeqArray [StageFunction terminator]) args_sequence
      (CbFunction ''onComplete''))) = Some TypeError
   \<and> observed (sequence_fn (config_arguments (SeqArray [StageFunction terminator]) args_sequence
      (CbFunction ''onComplete''))) = [Invoked 0 terminator context_sequence]"
  by (simp add: run_defs args_sequence_def context_sequence_def terminator_def back_referenced_def)

lemma c4_waiting_run:
  "observed (sequence_fn c4_waiting) =
     [Invoked 0 taskA group_context, Invoked 1 waiter context_A]
   \<and> returns (later [Complete ErrNull (Some res_wait)] (sequence_fn c4_waiting))
   \<and> observed (later [Complete ErrNull (Some res_wait)] (sequence_fn c4_waiting)) =
     [Invoked 0 taskA group_context, Invoked 1 waiter context_A,
      Invoked 2 terminator context_wait, Terminal ''onComplete'' ErrUndefined (Some resB)]"
  by (simp add: run_defs later_defs c4_waiting_def taskA_def succeed_def waiter_def
      terminator_def back_referenced_def resA_def res_wait_def resB_def group_context_def
      context_A_def context_wait_def)


section \<open>The claims\<close>







text \<open>
  C3. The two forms of the call are not equivalent in the code. With the same three
  values, the object form stores the arguments object and the callback, hands
  \<^verbatim>\<open>x = 1\<close> to the task and calls the callback; the positional form stores the
  sequence only, because \<^verbatim>\<open>arrConstructor\<close> reads the second and third value from
  its own \<^verbatim>\<open>arguments\<close>: the task gets a context without \<^verbatim>\<open>x\<close> and the callback
  is never called.
\<close>

theorem c3_positional_form_loses_args_and_callback:
  "observed (sequence_fn (config_arguments one_stage args_x (CbFunction ''onComplete''))) =
     [Invoked 0 taskA context_x, Terminal ''onComplete'' ErrUndefined (Some resA)]
   \<and> observed (sequence_fn (positional_arguments one_stage args_x (CbFunction ''onComplete''))) =
     [Invoked 0 taskA group_context]
   \<and> construct (config_arguments one_stage args_x (CbFunction ''onComplete''))
        (ready (SeqArray []) ArgsNull CbNull) = Inr (ready one_stage args_x (CbFunction ''onComplete''))
   \<and> construct (positional_arguments one_stage args_x (CbFunction ''onComplete''))
        (ready (SeqArray []) ArgsNull CbNull) = Inr (ready one_stage ArgsNull CbNull)"
  by (simp add: run_defs one_stage_def args_x_def context_x_def group_context_def taskA_def
      succeed_def resA_def ready_def)







text \<open>
  C6. For the stages \<^verbatim>\<open>[[taskA, taskB, taskC], mergeTask]\<close> the call returns after
  five calls to the outside: the three tasks of the group are invoked on the same
  context, \<^verbatim>\<open>mergeTask\<close> is invoked on a context that holds \<^verbatim>\<open>taskA = 1\<close>,
  \<^verbatim>\<open>taskB = 2\<close> and \<^verbatim>\<open>taskC = 3\<close>, and the terminal callback is called once,
  with no error value (the never-assigned \<^verbatim>\<open>pendingErr\<close>, which is
  \<^verbatim>\<open>undefined\<close>, the absent error of the callback convention) and with the data
  \<^verbatim>\<open>{done: true}\<close>, which holds none of the keys of the group: \<^verbatim>\<open>pendingData\<close> is
  emptied at every dispatch, so the callback gets the data of the last stage only.
\<close>

theorem c6_group_then_merge:
  "returns (sequence_fn c6_arguments)
   \<and> observed (sequence_fn c6_arguments) =
       [Invoked 0 taskA group_context, Invoked 0 taskB group_context,
        Invoked 0 taskC group_context, Invoked 1 mergeTask merge_context,
        Terminal ''onComplete'' ErrUndefined (Some done_result)]
   \<and> done_result ''taskA'' = None \<and> done_result ''taskB'' = None
   \<and> done_result ''taskC'' = None"
  by (simp add: run_defs c6_arguments_def taskA_def taskB_def taskC_def succeed_def resA_def resB_def
      resC_def mergeTask_def merge_context_def group_context_def done_result_def)

text \<open>
  C7. An error that a task reports does not stop the run, and the errors of a group are
  concatenated; but what the terminal callback gets is not the errors that the tasks
  reported. \<^verbatim>\<open>pendingErr\<close> is never initialised and in
  \<^verbatim>\<open>this.pendingErr + " " + err || err\<close> the sum is evaluated first, so the first
  error is appended to the text of \<^verbatim>\<open>undefined\<close> and the right operand of
  \<^verbatim>\<open>||\<close> is never used. A single task that reports \<^verbatim>\<open>a failed\<close> makes the
  terminal callback get \<^verbatim>\<open>undefined a failed\<close>; the group of two failing tasks,
  followed by a stage that runs all the same, makes it get
  \<^verbatim>\<open>undefined a failed b failed\<close>.
\<close>

theorem c7_accumulated_error_starts_with_undefined:
  "observed (sequence_fn (config_arguments one_failing ArgsNull (CbFunction ''onComplete'')))
     = [Invoked 0 failA group_context,
        Terminal ''onComplete'' (ErrStr ''undefined a failed'') (Some resA)]
   \<and> observed (sequence_fn (config_arguments (SeqArray c7_stages) ArgsNull (CbFunction ''onComplete'')))
     = [Invoked 0 failA group_context, Invoked 0 failB group_context,
        Invoked 1 taskC context_A,
        Terminal ''onComplete'' (ErrStr ''undefined a failed b failed'') (Some resC)]
   \<and> accumulate_err ErrUndefined (ErrStr ''a failed'') = ErrStr ''undefined a failed''"
  by (simp add: run_defs one_failing_def c7_stages_def failA_def failB_def taskC_def succeed_def
      resA_def group_context_def context_A_def)

text \<open>
  C8. A configuration of invalid shape does not keep the run from starting. With the
  array \<^verbatim>\<open>[1, 2]\<close> as arguments object the error is reported to the callback, and
  then \<^verbatim>\<open>go\<close>, which never looks at \<^verbatim>\<open>startupErrorText\<close>, invokes the task and
  the callback is called a second time; with a sequence that is no array the error is
  reported and \<^verbatim>\<open>go\<close> raises a \<^verbatim>\<open>TypeError\<close>.
\<close>

theorem c8_invalid_configuration_still_runs:
  "observed (sequence_fn (config_arguments one_stage args_array (CbFunction ''onComplete''))) =
     [Terminal ''onComplete'' (ErrStr invalidArgs) None,
      Invoked 0 taskA context_array,
      Terminal ''onComplete'' ErrUndefined (Some resA)]
   \<and> raised (sequence_fn (config_arguments SeqOther ArgsNull (CbFunction ''onComplete''))) =
       Some TypeError
   \<and> observed (sequence_fn (config_arguments SeqOther ArgsNull (CbFunction ''onComplete''))) =
       [Terminal ''onComplete'' (ErrStr invalidSequence) None]"
  by (simp add: run_defs one_stage_def args_array_def context_array_def taskA_def
      succeed_def resA_def texts_nonempty)

text \<open>
  C9. A truthy terminal handler that is no function raises at once in the object form,
  before anything else is checked or called. In the positional form nothing is raised:
  the handler is never read, construction succeeds and the run starts.
\<close>

theorem c9_positional_form_accepts_non_function:
  "raised (sequence_fn (config_arguments one_stage ArgsNull CbOther)) = Some (Thrown invalidCallback)
   \<and> observed (sequence_fn (config_arguments one_stage ArgsNull CbOther)) = []
   \<and> raised (sequence_fn (positional_arguments one_stage ArgsNull CbOther)) = None
   \<and> observed (sequence_fn (positional_arguments one_stage ArgsNull CbOther)) =
       [Invoked 0 taskA group_context]
   \<and> raised (new_Sequencer (positional_arguments one_stage ArgsNull CbOther)) = None"
  by (simp add: run_defs one_stage_def group_context_def taskA_def succeed_def resA_def)



end
